theory Spec2Isabelle
  imports Complex_Main
begin

section \<open>Vectors and matrices of the notebook\<close>

text \<open>
  The notebook \<^verbatim>\<open>sympy_notebooks/Positioners.ipynb\<close> computes with exact symbolic
  expressions: \<^verbatim>\<open>sympy.Matrix\<close> columns of three or four entries and matrices of
  3x3 and 4x4 entries.  The entries are modelled as real numbers, the columns and
  matrices as datatypes of fixed shape, so that a shape error of sympy is excluded by
  the types.  A matrix is stored by rows, as the nested lists given to
  \<^verbatim>\<open>sympy.Matrix\<close> are.
\<close>

datatype vec3 = Vec3 real real real

datatype vec4 = Vec4 real real real real

datatype mat3 = Mat3 vec3 vec3 vec3

datatype mat4 = Mat4 vec4 vec4 vec4 vec4

text \<open>
  Entrywise sum, difference and negation of columns and the product of a scalar with a
  column (\<^verbatim>\<open>c*v\<close> in sympy), as instances of the usual type classes.
\<close>

instantiation vec3 :: real_vector
begin

definition zero_vec3 :: vec3 where
  "zero_vec3 = Vec3 0 0 0"

fun plus_vec3 :: "vec3 \<Rightarrow> vec3 \<Rightarrow> vec3" where
  "plus_vec3 (Vec3 a0 a1 a2) (Vec3 b0 b1 b2) = Vec3 (a0 + b0) (a1 + b1) (a2 + b2)"

fun minus_vec3 :: "vec3 \<Rightarrow> vec3 \<Rightarrow> vec3" where
  "minus_vec3 (Vec3 a0 a1 a2) (Vec3 b0 b1 b2) = Vec3 (a0 - b0) (a1 - b1) (a2 - b2)"

fun uminus_vec3 :: "vec3 \<Rightarrow> vec3" where
  "uminus_vec3 (Vec3 a0 a1 a2) = Vec3 (- a0) (- a1) (- a2)"

fun scaleR_vec3 :: "real \<Rightarrow> vec3 \<Rightarrow> vec3" where
  "scaleR_vec3 c (Vec3 a0 a1 a2) = Vec3 (c * a0) (c * a1) (c * a2)"

instance
proof
  fix a b c :: vec3 and r s :: real
  show "a + b + c = a + (b + c)"
    by (cases a; cases b; cases c) simp
  show "a + b = b + a"
    by (cases a; cases b) simp
  show "0 + a = a"
    by (cases a) (simp add: zero_vec3_def)
  show "- a + a = 0"
    by (cases a) (simp add: zero_vec3_def)
  show "a - b = a + - b"
    by (cases a; cases b) simp
  show "r *\<^sub>R (a + b) = r *\<^sub>R a + r *\<^sub>R b"
    by (cases a; cases b) (simp add: algebra_simps)
  show "(r + s) *\<^sub>R a = r *\<^sub>R a + s *\<^sub>R a"
    by (cases a) (simp add: algebra_simps)
  show "r *\<^sub>R s *\<^sub>R a = (r * s) *\<^sub>R a"
    by (cases a) simp
  show "1 *\<^sub>R a = a"
    by (cases a) simp
qed

end

text \<open>\<^verbatim>\<open>a.dot(v)\<close> and \<^verbatim>\<open>a.cross(v)\<close> of sympy, on columns of three entries.\<close>

fun dot :: "vec3 \<Rightarrow> vec3 \<Rightarrow> real" where
  "dot (Vec3 a0 a1 a2) (Vec3 b0 b1 b2) = a0 * b0 + a1 * b1 + a2 * b2"

fun cross :: "vec3 \<Rightarrow> vec3 \<Rightarrow> vec3" where
  "cross (Vec3 a0 a1 a2) (Vec3 b0 b1 b2) =
     Vec3 (a1 * b2 - a2 * b1) (a2 * b0 - a0 * b2) (a0 * b1 - a1 * b0)"

text \<open>The basis columns \<^verbatim>\<open>X\<close>, \<^verbatim>\<open>Y\<close>, \<^verbatim>\<open>Z\<close> of cell 9.\<close>

definition X :: vec3 where
  "X = Vec3 1 0 0"

definition Y :: vec3 where
  "Y = Vec3 0 1 0"

definition Z :: vec3 where
  "Z = Vec3 0 0 1"

section \<open>The rotation formulas of the notebook\<close>

text \<open>
  Cell 7:
  \<^verbatim>\<open>vrot1 = cosOmega*v + sinOmega*(v.cross(a)) + (1-cosOmega)*(a.dot(v))*a\<close>
  and
  \<^verbatim>\<open>vrot2 = sinOmega*v.cross(a) + cosOmega*( v - (a.dot(v))*a) + a.dot(v)*a\<close>,
  as functions of the symbols \<^verbatim>\<open>v\<close>, \<^verbatim>\<open>a\<close> and \<^verbatim>\<open>Omega\<close>.
\<close>

definition vrot1 :: "vec3 \<Rightarrow> vec3 \<Rightarrow> real \<Rightarrow> vec3" where
  "vrot1 v a Omega =
     (let cosOmega = cos Omega; sinOmega = sin Omega
      in cosOmega *\<^sub>R v + sinOmega *\<^sub>R cross v a + ((1 - cosOmega) * dot a v) *\<^sub>R a)"


text \<open>
  Cell 8:
  \<^verbatim>\<open>def axis_angle_rotation( vec, axis, angle )\<close> returns
  \<^verbatim>\<open>cosa*vec + sina*(axis.cross(vec)) + (1-cosa)*(axis.dot(vec))*axis\<close>.
  The axis is used as it is passed; the function has no other branch.
\<close>

definition axis_angle_rotation :: "vec3 \<Rightarrow> vec3 \<Rightarrow> real \<Rightarrow> vec3" where
  "axis_angle_rotation vec axis angle =
     (let cosa = cos angle; sina = sin angle
      in cosa *\<^sub>R vec + sina *\<^sub>R cross axis vec + ((1 - cosa) * dot axis vec) *\<^sub>R axis)"

section \<open>Homogeneous transforms\<close>

text \<open>
  Cell 4: \<^verbatim>\<open>make_mat4(U,t)\<close> builds the 4x4 matrix whose first three rows are the
  rows of \<^verbatim>\<open>U\<close> followed by the entry of \<^verbatim>\<open>t\<close>, and whose last row is
  \<^verbatim>\<open>[0, 0, 0, 1]\<close>.
\<close>

fun make_mat4 :: "mat3 \<Rightarrow> vec3 \<Rightarrow> mat4" where
  "make_mat4 (Mat3 (Vec3 u00 u01 u02) (Vec3 u10 u11 u12) (Vec3 u20 u21 u22)) (Vec3 t0 t1 t2) =
     Mat4 (Vec4 u00 u01 u02 t0)
          (Vec4 u10 u11 u12 t1)
          (Vec4 u20 u21 u22 t2)
          (Vec4 0 0 0 1)"

text \<open>
  Cells 5 and 6 multiply the 4x4 matrix by a column of four entries
  (\<^verbatim>\<open>mat4_full * X\<close>): each entry of the product is a row times the column.
\<close>

fun dot4 :: "vec4 \<Rightarrow> vec4 \<Rightarrow> real" where
  "dot4 (Vec4 a0 a1 a2 a3) (Vec4 b0 b1 b2 b3) = a0 * b0 + a1 * b1 + a2 * b2 + a3 * b3"

fun mat4_mul_vec :: "mat4 \<Rightarrow> vec4 \<Rightarrow> vec4" where
  "mat4_mul_vec (Mat4 r0 r1 r2 r3) x = Vec4 (dot4 r0 x) (dot4 r1 x) (dot4 r2 x) (dot4 r3 x)"

text \<open>
  The augmented columns \<^verbatim>\<open>sympy.Matrix( [x,y,z,1] )\<close> and
  \<^verbatim>\<open>sympy.Matrix( [h,k,l,0] )\<close> of cells 5 and 6, and the trailing entry of a
  column of four.
\<close>

fun augment :: "vec3 \<Rightarrow> real \<Rightarrow> vec4" where
  "augment (Vec3 x y z) w = Vec4 x y z w"

fun trailing :: "vec4 \<Rightarrow> real" where
  "trailing (Vec4 x y z w) = w"

text \<open>The product of a 3x3 matrix with a column, \<open>U \<cdot> x\<close>.\<close>

fun mat3_mul_vec :: "mat3 \<Rightarrow> vec3 \<Rightarrow> vec3" where
  "mat3_mul_vec (Mat3 r0 r1 r2) x = Vec3 (dot r0 x) (dot r1 x) (dot r2 x)"

section \<open>The matrix of a rotation\<close>

text \<open>Transpose, product, determinant and unit of 3x3 matrices.\<close>

fun transpose3 :: "mat3 \<Rightarrow> mat3" where
  "transpose3 (Mat3 (Vec3 m00 m01 m02) (Vec3 m10 m11 m12) (Vec3 m20 m21 m22)) =
     Mat3 (Vec3 m00 m10 m20) (Vec3 m01 m11 m21) (Vec3 m02 m12 m22)"

fun mat3_mul :: "mat3 \<Rightarrow> mat3 \<Rightarrow> mat3" where
  "mat3_mul (Mat3 r0 r1 r2) B =
     (case transpose3 B of Mat3 c0 c1 c2 \<Rightarrow>
        Mat3 (Vec3 (dot r0 c0) (dot r0 c1) (dot r0 c2))
             (Vec3 (dot r1 c0) (dot r1 c1) (dot r1 c2))
             (Vec3 (dot r2 c0) (dot r2 c1) (dot r2 c2)))"

fun det3 :: "mat3 \<Rightarrow> real" where
  "det3 (Mat3 (Vec3 m00 m01 m02) (Vec3 m10 m11 m12) (Vec3 m20 m21 m22)) =
     m00 * (m11 * m22 - m12 * m21)
     - m01 * (m10 * m22 - m12 * m20)
     + m02 * (m10 * m21 - m11 * m20)"

definition identity3 :: mat3 where
  "identity3 = Mat3 (Vec3 1 0 0) (Vec3 0 1 0) (Vec3 0 0 1)"

text \<open>
  The 3x3 matrix of the map \<open>v \<mapsto> axis_angle_rotation v a \<theta>\<close>: its columns are the
  images of the basis columns \<^verbatim>\<open>X\<close>, \<^verbatim>\<open>Y\<close> and \<^verbatim>\<open>Z\<close>, to which cells 9 and 10
  apply the function.  (The notebook announces the conversion to a matrix in its last
  line and leaves the cell empty.)
\<close>

definition rotation_matrix :: "vec3 \<Rightarrow> real \<Rightarrow> mat3" where
  "rotation_matrix a \<theta> =
     transpose3 (Mat3 (axis_angle_rotation X a \<theta>)
                      (axis_angle_rotation Y a \<theta>)
                      (axis_angle_rotation Z a \<theta>))"

text \<open>
  The rotation formula with the cosine and the sine as free parameters: an auxiliary
  of the proofs, which turns the properties of \<open>axis_angle_rotation\<close> into polynomial
  identities.
\<close>

definition rot_cs :: "real \<Rightarrow> real \<Rightarrow> vec3 \<Rightarrow> vec3 \<Rightarrow> vec3" where
  "rot_cs c s v a = c *\<^sub>R v + s *\<^sub>R cross a v + ((1 - c) * dot a v) *\<^sub>R a"

section \<open>The operations the spec describes around the notebook\<close>

text \<open>
  The repository holds the notebook and the configuration \<^verbatim>\<open>grewgg/data/fable.yml\<close>;
  it has no code that normalises an axis, builds the transform of one axis or composes
  a stack.  The definitions of this section follow the words of the spec, on top of
  the functions of the notebook.
\<close>

datatype error = DegenerateAxis | MissingMotorValue string

text \<open>
  Modelled from the spec: the normalisation of an axis, missing from the notebook.
  "\<open>a\<close> must be unit-normalized internally even if callers pass a non-normalized
  vector, and normalization fails (signals a DegenerateAxis error) if \<open>|a|\<close> is zero."
\<close>

definition normalize :: "vec3 \<Rightarrow> vec3" where
  "normalize a = (1 / sqrt (dot a a)) *\<^sub>R a"

definition RotationFromAxisAngle :: "vec3 \<Rightarrow> vec3 \<Rightarrow> real \<Rightarrow> error + vec3" where
  "RotationFromAxisAngle v a \<theta> =
     (if dot a a = 0 then Inl DegenerateAxis
      else Inr (axis_angle_rotation v (normalize a) \<theta>))"

text \<open>
  Modelled from the spec: the axis record of the data model, missing from the
  repository as code.  The configuration gives each axis a \<^verbatim>\<open>name\<close>, a
  \<^verbatim>\<open>type\<close>, an \<^verbatim>\<open>axis\<close> vector and an optional default \<^verbatim>\<open>pos\<close>; the spec
  calls them name, kind, direction and fixed\_offset.  The kinds are a closed sum
  type, so an unknown kind cannot be written; a fixed transform carries its \<open>U\<close> and
  \<open>t\<close>.
\<close>

datatype axis_kind = Translation | Rotation | Scale | FixedTransform mat3 vec3

record axis =
  name :: string
  kind :: axis_kind
  direction :: vec3
  fixed_offset :: "real option"

type_synonym motor_values = "string \<rightharpoonup> real"

type_synonym positioner_stack = "axis list"

text \<open>
  Modelled from the spec: the resolution of a motor value, missing from the
  repository.  The supplied value of the axis if there is one, else the configured
  default, else the error MissingMotorValue naming the axis.
\<close>

definition resolve_motor_value :: "motor_values \<Rightarrow> axis \<Rightarrow> error + real" where
  "resolve_motor_value mv ax =
     (case mv (name ax) of
        Some x \<Rightarrow> Inr x
      | None \<Rightarrow>
          (case fixed_offset ax of
             Some d \<Rightarrow> Inr d
           | None \<Rightarrow> Inl (MissingMotorValue (name ax))))"

fun resolve_all :: "motor_values \<Rightarrow> positioner_stack \<Rightarrow> error + real list" where
  "resolve_all mv [] = Inr []"
| "resolve_all mv (ax # stack) =
     (case resolve_motor_value mv ax of
        Inl e \<Rightarrow> Inl e
      | Inr x \<Rightarrow>
          (case resolve_all mv stack of
             Inl e \<Rightarrow> Inl e
           | Inr xs \<Rightarrow> Inr (x # xs)))"

text \<open>
  Modelled from the spec: AxisTransform, missing from the repository.  Translation:
  \<open>U\<close> is the identity and \<open>t\<close> is the direction times the motor value.  Rotation:
  \<open>U\<close> is the matrix of the rotation about the normalised direction by the motor
  value, \<open>t = 0\<close>, and a zero direction is a DegenerateAxis error.  Scale: \<open>U\<close> is the
  identity except that the diagonal entry selected by the nonzero component of the
  direction is the motor value, \<open>t = 0\<close>.  Fixed transform: \<open>U\<close> and \<open>t\<close> as configured,
  whatever the motor value.
\<close>

fun scale_matrix :: "vec3 \<Rightarrow> real \<Rightarrow> mat3" where
  "scale_matrix (Vec3 a0 a1 a2) m =
     Mat3 (Vec3 (if a0 \<noteq> 0 then m else 1) 0 0)
          (Vec3 0 (if a1 \<noteq> 0 then m else 1) 0)
          (Vec3 0 0 (if a2 \<noteq> 0 then m else 1))"

definition AxisTransform :: "axis \<Rightarrow> real \<Rightarrow> error + mat4" where
  "AxisTransform ax m =
     (case kind ax of
        Translation \<Rightarrow> Inr (make_mat4 identity3 (m *\<^sub>R direction ax))
      | Rotation \<Rightarrow>
          (if dot (direction ax) (direction ax) = 0 then Inl DegenerateAxis
           else Inr (make_mat4 (rotation_matrix (normalize (direction ax)) m) 0))
      | Scale \<Rightarrow> Inr (make_mat4 (scale_matrix (direction ax) m) 0)
      | FixedTransform U t \<Rightarrow> Inr (make_mat4 U t))"

fun axis_transforms :: "positioner_stack \<Rightarrow> real list \<Rightarrow> error + mat4 list" where
  "axis_transforms (ax # stack) (m # ms) =
     (case AxisTransform ax m of
        Inl e \<Rightarrow> Inl e
      | Inr T \<Rightarrow>
          (case axis_transforms stack ms of
             Inl e \<Rightarrow> Inl e
           | Inr Ts \<Rightarrow> Inr (T # Ts)))"
| "axis_transforms _ _ = Inr []"

text \<open>The product of 4x4 matrices and its unit.\<close>

fun transpose4 :: "mat4 \<Rightarrow> mat4" where
  "transpose4 (Mat4 (Vec4 m00 m01 m02 m03) (Vec4 m10 m11 m12 m13)
                    (Vec4 m20 m21 m22 m23) (Vec4 m30 m31 m32 m33)) =
     Mat4 (Vec4 m00 m10 m20 m30) (Vec4 m01 m11 m21 m31)
          (Vec4 m02 m12 m22 m32) (Vec4 m03 m13 m23 m33)"

fun mat4_mul :: "mat4 \<Rightarrow> mat4 \<Rightarrow> mat4" where
  "mat4_mul (Mat4 r0 r1 r2 r3) B =
     (case transpose4 B of Mat4 c0 c1 c2 c3 \<Rightarrow>
        Mat4 (Vec4 (dot4 r0 c0) (dot4 r0 c1) (dot4 r0 c2) (dot4 r0 c3))
             (Vec4 (dot4 r1 c0) (dot4 r1 c1) (dot4 r1 c2) (dot4 r1 c3))
             (Vec4 (dot4 r2 c0) (dot4 r2 c1) (dot4 r2 c2) (dot4 r2 c3))
             (Vec4 (dot4 r3 c0) (dot4 r3 c1) (dot4 r3 c2) (dot4 r3 c3)))"

definition identity4 :: mat4 where
  "identity4 = Mat4 (Vec4 1 0 0 0) (Vec4 0 1 0 0) (Vec4 0 0 1 0) (Vec4 0 0 0 1)"

text \<open>
  Modelled from the spec: PositionerStack, missing from the repository.  Every axis
  of the stack gets its motor value first, and the composition fails with
  MissingMotorValue if one has none; then each axis gives its transform, and the
  composed transform is the product \<open>T\<^sub>1 \<cdot> T\<^sub>2 \<cdots> T\<^sub>n\<close> in the declared order.
\<close>

definition PositionerStack :: "positioner_stack \<Rightarrow> motor_values \<Rightarrow> error + mat4" where
  "PositionerStack stack mv =
     (case resolve_all mv stack of
        Inl e \<Rightarrow> Inl e
      | Inr ms \<Rightarrow>
          (case axis_transforms stack ms of
             Inl e \<Rightarrow> Inl e
           | Inr Ts \<Rightarrow> Inr (foldr mat4_mul Ts identity4)))"



text \<open>
  The stack \<^verbatim>\<open>FF_Detector_Mount\<close> of \<^verbatim>\<open>grewgg/data/fable.yml\<close> (lines 25 to 28):
  \<^verbatim>\<open>ffdtx1\<close> has the default \<^verbatim>\<open>pos : 20.0\<close>, \<^verbatim>\<open>ffdtz1\<close> and \<^verbatim>\<open>ffdtilt\<close> have none.
\<close>

definition ffdtx1 :: axis where
  "ffdtx1 = \<lparr>name = ''ffdtx1'', kind = Translation, direction = Vec3 1 0 0,
             fixed_offset = Some 20\<rparr>"




section \<open>The two checked forms and the exported function\<close>



text \<open>
  Claim C8.  The formula \<open>vrot1\<close> that the notebook checks is \<open>axis_angle_rotation\<close>
  at the opposite angle: the two describe rotations of opposite sense, because one
  takes \<open>v \<times> a\<close> and the other \<open>a \<times> v\<close>.
\<close>

theorem vrot1_opposite_sense:
  "vrot1 v a \<theta> = axis_angle_rotation v a (- \<theta>)"
  by (cases v; cases a) (simp add: vrot1_def axis_angle_rotation_def Let_def algebra_simps)

section \<open>Right-handedness\<close>

text \<open>
  Claim C2.  The rotation of \<open>axis_angle_rotation\<close> is right-handed: a quarter turn
  about \<open>Z\<close> sends \<open>X\<close> to \<open>Y\<close> (and not to \<open>- Y\<close>) and \<open>Y\<close> to \<open>- X\<close>, and every
  rotation about \<open>Z\<close> leaves \<open>Z\<close> where it is.
\<close>

theorem axis_angle_rotation_right_handed:
  "axis_angle_rotation X Z (pi / 2) = Y
   \<and> axis_angle_rotation X Z (pi / 2) \<noteq> - Y
   \<and> axis_angle_rotation Y Z (pi / 2) = - X
   \<and> axis_angle_rotation Z Z \<theta> = Z"
  by (simp add: axis_angle_rotation_def X_def Y_def Z_def Let_def)

section \<open>The axis is used as it is passed\<close>

lemma normalize_unit:
  "dot a a = 1 \<Longrightarrow> normalize a = a"
  by (simp add: normalize_def)

text \<open>
  Claim C3, as the spec states it: a zero axis is a DegenerateAxis error and any other
  axis is normalised first, so that \<open>R(c\<cdot>a, \<theta>)\<cdot>v = R(a, \<theta>)\<cdot>v\<close> for \<open>c > 0\<close>.  The
  function of the notebook does neither.  With the axis \<open>2\<cdot>Z\<close> a quarter turn gives
  another vector than with \<open>Z\<close>, and another one than the spec's operation gives; with
  the zero axis it returns a vector where the spec's operation fails.
\<close>

theorem normalisation_counterexample:
  "(0::real) < 2
   \<and> axis_angle_rotation X (2 *\<^sub>R Z) (pi / 2) \<noteq> axis_angle_rotation X Z (pi / 2)
   \<and> RotationFromAxisAngle X (2 *\<^sub>R Z) (pi / 2)
       \<noteq> Inr (axis_angle_rotation X (2 *\<^sub>R Z) (pi / 2))
   \<and> dot 0 0 = 0
   \<and> RotationFromAxisAngle X 0 0 = Inl DegenerateAxis
   \<and> axis_angle_rotation X 0 0 = X"
  by (simp add: axis_angle_rotation_def RotationFromAxisAngle_def normalize_def
      X_def Z_def Let_def zero_vec3_def)

text \<open>
  Claim C3, amended.  \<open>axis_angle_rotation\<close> applies the formula to the axis as it is
  passed, with no normalisation and no error: for the zero axis it returns
  \<open>cos \<theta> \<cdot> v\<close>; scaling the axis by \<open>c\<close> scales the sine term by \<open>c\<close> and the
  parallel term by \<open>c\<^sup>2\<close>; and when the caller passes a unit axis the result is the
  rotation about the normalised axis that the spec describes.
\<close>

theorem axis_angle_rotation_axis_as_passed:
  "axis_angle_rotation v 0 \<theta> = cos \<theta> *\<^sub>R v
   \<and> axis_angle_rotation v (c *\<^sub>R a) \<theta> =
       cos \<theta> *\<^sub>R v + (c * sin \<theta>) *\<^sub>R cross a v + (c * c * (1 - cos \<theta>) * dot a v) *\<^sub>R a
   \<and> (dot a a = 1 \<longrightarrow> RotationFromAxisAngle v a \<theta> = Inr (axis_angle_rotation v a \<theta>))"
proof (intro conjI)
  show "axis_angle_rotation v 0 \<theta> = cos \<theta> *\<^sub>R v"
    by (cases v) (simp add: axis_angle_rotation_def Let_def zero_vec3_def)
  show "axis_angle_rotation v (c *\<^sub>R a) \<theta> =
      cos \<theta> *\<^sub>R v + (c * sin \<theta>) *\<^sub>R cross a v + (c * c * (1 - cos \<theta>) * dot a v) *\<^sub>R a"
    by (cases v; cases a) (simp add: axis_angle_rotation_def Let_def algebra_simps)
  show "dot a a = 1 \<longrightarrow> RotationFromAxisAngle v a \<theta> = Inr (axis_angle_rotation v a \<theta>)"
    by (simp add: RotationFromAxisAngle_def normalize_unit)
qed

theorem axis_angle_rotation_axis_as_passed_witness:
  "dot Z Z = 1
   \<and> RotationFromAxisAngle X Z (pi / 2) = Inr (axis_angle_rotation X Z (pi / 2))
   \<and> axis_angle_rotation X 0 (pi / 2) = cos (pi / 2) *\<^sub>R X"
  using axis_angle_rotation_axis_as_passed [of X "pi / 2" 1 Z] by (simp add: Z_def)

section \<open>Applying a homogeneous transform\<close>

text \<open>
  Claim C4.  For every 3x3 matrix \<open>U\<close> and columns \<open>t\<close> and \<open>x\<close>, the matrix
  \<open>make_mat4 U t\<close> sends the augmented column \<open>[x, 1]\<close> to \<open>[U\<cdot>x + t, 1]\<close> and
  \<open>[x, 0]\<close> to \<open>[U\<cdot>x, 0]\<close>; whatever the trailing entry of the input is, the
  trailing entry of the output is the same.
\<close>

theorem make_mat4_apply:
  "mat4_mul_vec (make_mat4 U t) (augment x 1) = augment (mat3_mul_vec U x + t) 1
   \<and> mat4_mul_vec (make_mat4 U t) (augment x 0) = augment (mat3_mul_vec U x) 0
   \<and> trailing (mat4_mul_vec (make_mat4 U t) (augment x w)) = w"
proof (cases U)
  case (Mat3 r0 r1 r2)
  then show ?thesis
    by (cases r0; cases r1; cases r2; cases t; cases x) simp
qed

section \<open>Polynomial identities of the rotation formula\<close>

lemma axis_angle_rotation_rot_cs:
  "axis_angle_rotation v a \<theta> = rot_cs (cos \<theta>) (sin \<theta>) v a"
  by (simp add: axis_angle_rotation_def rot_cs_def Let_def)

lemma cos_sin_squares:
  "cos \<theta> * cos \<theta> + sin \<theta> * sin \<theta> = (1::real)"
  using sin_cos_squared_add2 [of \<theta>] by (simp add: power2_eq_square)

text \<open>
  Two rotations about one axis: up to a term that vanishes for a unit axis, the
  parameters combine as the cosine and sine of a sum do.
\<close>

lemma rot_cs_compose:
  "rot_cs c1 s1 (rot_cs c2 s2 v a) a =
     rot_cs (c1 * c2 - s1 * s2) (s1 * c2 + c1 * s2) v a
     + (dot a a - 1) *\<^sub>R (((1 - c1) * (1 - c2) * dot a v) *\<^sub>R a - (s1 * s2) *\<^sub>R v)"
  by (cases v; cases a) (simp add: rot_cs_def algebra_simps)

text \<open>
  The scalar product of two images: the defect is a multiple of \<open>c\<^sup>2 + s\<^sup>2 - 1\<close> plus
  a multiple of \<open>a\<cdot>a - 1\<close>.
\<close>

lemma rot_cs_dot:
  "dot (rot_cs c s u a) (rot_cs c s w a) =
     dot u w + (c * c + s * s - 1) * (dot u w - dot a u * dot a w)
     + (dot a a - 1) * (s * s * dot u w + (1 - c) * (1 - c) * dot a u * dot a w)"
  by (cases u; cases w; cases a) (simp add: rot_cs_def algebra_simps)

lemma rot_cs_det:
  "det3 (transpose3 (Mat3 (rot_cs c s X a) (rot_cs c s Y a) (rot_cs c s Z a))) =
     (c + (1 - c) * dot a a) * (c * c + dot a a * (s * s))"
  by (cases a) (simp add: rot_cs_def X_def Y_def Z_def algebra_simps)

lemma axis_angle_rotation_dot:
  assumes "dot a a = 1"
  shows "dot (axis_angle_rotation u a \<theta>) (axis_angle_rotation w a \<theta>) = dot u w"
  by (simp add: axis_angle_rotation_rot_cs rot_cs_dot assms cos_sin_squares)

lemma gram_matrix:
  "mat3_mul (transpose3 (transpose3 (Mat3 c0 c1 c2))) (transpose3 (Mat3 c0 c1 c2)) =
     Mat3 (Vec3 (dot c0 c0) (dot c0 c1) (dot c0 c2))
          (Vec3 (dot c1 c0) (dot c1 c1) (dot c1 c2))
          (Vec3 (dot c2 c0) (dot c2 c1) (dot c2 c2))"
  by (cases c0; cases c1; cases c2) simp

lemma dot_basis:
  "dot X X = 1" "dot X Y = 0" "dot X Z = 0"
  "dot Y X = 0" "dot Y Y = 1" "dot Y Z = 0"
  "dot Z X = 0" "dot Z Y = 0" "dot Z Z = 1"
  by (simp_all add: X_def Y_def Z_def)

section \<open>The rotation matrix is a proper rotation\<close>

text \<open>
  Claim C5.  For every unit axis \<open>a\<close> (\<open>a\<cdot>a = 1\<close>) and every angle \<open>\<theta>\<close>, the 3x3
  matrix \<open>R\<close> whose columns are the images of the basis vectors under
  \<open>axis_angle_rotation\<close> is orthogonal, \<open>R\<^sup>T \<cdot> R = I\<close>, and has determinant 1.
\<close>

theorem rotation_matrix_orthogonal:
  assumes "dot a a = 1"
  shows "mat3_mul (transpose3 (rotation_matrix a \<theta>)) (rotation_matrix a \<theta>) = identity3
    \<and> det3 (rotation_matrix a \<theta>) = 1"
proof
  show "mat3_mul (transpose3 (rotation_matrix a \<theta>)) (rotation_matrix a \<theta>) = identity3"
    unfolding rotation_matrix_def gram_matrix
    by (simp add: axis_angle_rotation_dot [OF assms] dot_basis identity3_def)
  have "det3 (rotation_matrix a \<theta>) =
      (cos \<theta> + (1 - cos \<theta>) * dot a a) * (cos \<theta> * cos \<theta> + dot a a * (sin \<theta> * sin \<theta>))"
    by (simp add: rotation_matrix_def axis_angle_rotation_rot_cs rot_cs_det)
  then show "det3 (rotation_matrix a \<theta>) = 1"
    by (simp add: assms cos_sin_squares)
qed

theorem rotation_matrix_orthogonal_witness:
  "dot Z Z = 1
   \<and> mat3_mul (transpose3 (rotation_matrix Z (pi / 2))) (rotation_matrix Z (pi / 2))
       = identity3
   \<and> det3 (rotation_matrix Z (pi / 2)) = 1"
  using rotation_matrix_orthogonal [of Z "pi / 2"] by (simp add: Z_def)

section \<open>Rotations about one axis add their angles\<close>

text \<open>
  Claim C9.  For every unit axis \<open>a\<close> (\<open>a\<cdot>a = 1\<close>), angles \<open>\<theta>\<close> and \<open>\<phi>\<close> and vector
  \<open>v\<close>, rotating \<open>v\<close> about \<open>a\<close> by \<open>\<phi>\<close> and then by \<open>\<theta>\<close> is rotating it by
  \<open>\<theta> + \<phi>\<close>.
\<close>

theorem axis_angle_rotation_compose:
  assumes "dot a a = 1"
  shows "axis_angle_rotation (axis_angle_rotation v a \<phi>) a \<theta> =
    axis_angle_rotation v a (\<theta> + \<phi>)"
  by (simp add: axis_angle_rotation_rot_cs rot_cs_compose assms cos_add sin_add)

theorem axis_angle_rotation_compose_witness:
  "dot Z Z = 1
   \<and> axis_angle_rotation (axis_angle_rotation X Z (pi / 2)) Z (pi / 2) =
       axis_angle_rotation X Z (pi / 2 + pi / 2)"
  using axis_angle_rotation_compose [of Z X "pi / 2" "pi / 2"] by (simp add: Z_def)

section \<open>Linearity\<close>

text \<open>
  Claim C10.  For every axis \<open>a\<close> and angle \<open>\<theta>\<close> the map
  \<open>v \<mapsto> axis_angle_rotation v a \<theta>\<close> is linear: the image of
  \<open>\<alpha> u + \<beta> w\<close> is \<open>\<alpha>\<close> times the image of \<open>u\<close> plus \<open>\<beta>\<close> times the image of \<open>w\<close>.
\<close>

theorem axis_angle_rotation_linear:
  "axis_angle_rotation (\<alpha> *\<^sub>R u + \<beta> *\<^sub>R w) a \<theta> =
     \<alpha> *\<^sub>R axis_angle_rotation u a \<theta> + \<beta> *\<^sub>R axis_angle_rotation w a \<theta>"
  by (cases u; cases w; cases a) (simp add: axis_angle_rotation_def Let_def algebra_simps)

section \<open>Composing a stack\<close>

text \<open>
  Claim C6.  The stack of the single translation \<^verbatim>\<open>ffdtx1\<close> (axis \<open>[1,0,0]\<close>, default
  position 20), composed with no supplied motor value, takes the default and sends
  the position \<open>[0,0,0,1]\<close> to \<open>[20,0,0,1]\<close>.
\<close>

theorem single_translation_stack:
  "\<exists>T. PositionerStack [ffdtx1] Map.empty = Inr T
       \<and> mat4_mul_vec T (Vec4 0 0 0 1) = Vec4 20 0 0 1"
  by (simp add: PositionerStack_def resolve_motor_value_def AxisTransform_def ffdtx1_def
      identity3_def identity4_def)









end
